theory Spec2Isabelle
  imports Main "HOL-Library.Word"
begin

unbundle bit_operations_syntax

section \<open>The Xenium modchip model (hw/xbox/modchip\_xenium.c)\<close>

text \<open>
  The C file is embedded function by function. Machine integers are words of the
  width the C type has: \<^verbatim>\<open>uint8_t\<close> and \<^verbatim>\<open>unsigned char\<close> are \<open>8 word\<close>,
  \<^verbatim>\<open>unsigned short\<close> is \<open>16 word\<close>, \<^verbatim>\<open>uint32_t\<close> is \<open>32 word\<close>, \<^verbatim>\<open>uint64_t\<close> and
  \<^verbatim>\<open>hwaddr\<close> are \<open>64 word\<close>. The debug output of \<^verbatim>\<open>DPRINTF\<close> changes no device state
  and is left out.
\<close>

type_synonym u8 = "8 word"
type_synonym u16 = "16 word"
type_synonym u32 = "32 word"
type_synonym u64 = "64 word"

subsection \<open>How a call ends\<close>

text \<open>
  A call of a C function of this file ends in one of three ways:
  \<^item> \<open>Returned v\<close>: a \<^verbatim>\<open>return\<close> statement delivered \<open>v\<close> (for a \<^verbatim>\<open>void\<close> function that
    mutates the device, \<open>v\<close> is the device state after the call);
  \<^item> \<open>Assert_failed\<close>: an \<^verbatim>\<open>assert\<close> did not hold and the process was aborted (QEMU's
    \<^verbatim>\<open>osdep.h\<close> refuses to build with assertions disabled);
  \<^item> \<open>No_return_value\<close>: control reached the closing brace of a function whose return
    type is not \<^verbatim>\<open>void\<close> without executing a \<^verbatim>\<open>return\<close>; the caller receives no defined
    value (C11 6.9.1p12).
\<close>

datatype 'a outcome = Returned 'a | Assert_failed | No_return_value

subsection \<open>Device state\<close>

text \<open>
  \<^verbatim>\<open>struct XeniumState\<close>, without the two members \<^verbatim>\<open>dev\<close> and \<^verbatim>\<open>io\<close> that belong to the
  host framework.
\<close>

record XeniumState =
  sck :: bool
  cs :: bool
  mosi :: bool
  miso_1 :: bool
  miso_4 :: bool
  led :: u8
  bank_control :: u16
  recovery :: bool

subsection \<open>Address masking\<close>

text \<open>
  \<^verbatim>\<open>mask[i]\<close> on a NUL-terminated C string (the parameter \<^verbatim>\<open>mask\<close> is written \<open>msk\<close>
  here, \<open>mask\<close> being a constant of the word library): the characters of the string, then the
  terminator. The loop below never reads past the terminator, because the terminator
  is none of the three accepted characters.
\<close>

definition mask_char :: "string \<Rightarrow> nat \<Rightarrow> char" where
  "mask_char msk i = (if i < length msk then msk ! i else CHR 0x00)"

text \<open>
  The \<^verbatim>\<open>for\<close> loop of \<^verbatim>\<open>xenium_mask_flash_address\<close>: \<open>i\<close> is the loop counter and
  \<open>translation\<close> the local variable. \<open>None\<close> is the failed \<^verbatim>\<open>assert(false)\<close> of the
  \<^verbatim>\<open>default\<close> branch; \<open>Some t\<close> is the value of \<open>translation\<close> when the loop is left.
\<close>

function xenium_mask_loop :: "nat \<Rightarrow> u32 \<Rightarrow> string \<Rightarrow> u32 option" where
  "xenium_mask_loop i translation msk =
     (if i < 3 then
        (let bitval = (push_bit (20 - i) 1 :: u32) in
         if mask_char msk i = CHR ''1'' then xenium_mask_loop (i + 1) (translation OR bitval) msk
         else if mask_char msk i = CHR ''0'' then
           xenium_mask_loop (i + 1) (translation AND NOT bitval) msk
         else if mask_char msk i = CHR ''X'' then xenium_mask_loop (i + 1) translation msk
         else None)
      else Some translation)"
  by pat_completeness auto
termination
  by (relation "measure (\<lambda>(i, translation, msk). 3 - i)") auto

declare xenium_mask_loop.simps [simp del]

text \<open>
  The function itself: \<open>translation\<close> starts as \<open>address\<close>, the loop runs, and the body
  ends without a \<^verbatim>\<open>return\<close> statement, so the value the loop computed is dropped.
\<close>

definition xenium_mask_flash_address :: "u32 \<Rightarrow> string \<Rightarrow> u32 outcome" where
  "xenium_mask_flash_address address msk =
     (case xenium_mask_loop 0 address msk of
        None \<Rightarrow> Assert_failed
      | Some translation \<Rightarrow> No_return_value)"

subsection \<open>Bank table\<close>

text \<open>
  Each case returns what the masking call delivers; the \<^verbatim>\<open>default\<close> case is
  \<^verbatim>\<open>assert(false)\<close>. The local \<^verbatim>\<open>translation\<close> of the C function is never read. The
  parameter \<^verbatim>\<open>bank_control\<close> is written \<open>bank\<close>, the longer name being the record field.
\<close>

definition xenium_translate_flash_address :: "u32 \<Rightarrow> u8 \<Rightarrow> u32 outcome" where
  "xenium_translate_flash_address address bank =
     (if bank = 0 then xenium_mask_flash_address address ''XXX''
      else if bank = 1 then xenium_mask_flash_address address ''110''
      else if bank = 2 then xenium_mask_flash_address address ''10X''
      else if bank = 3 then xenium_mask_flash_address address ''000''
      else if bank = 4 then xenium_mask_flash_address address ''001''
      else if bank = 5 then xenium_mask_flash_address address ''010''
      else if bank = 6 then xenium_mask_flash_address address ''011''
      else if bank = 7 then xenium_mask_flash_address address ''00X''
      else if bank = 8 then xenium_mask_flash_address address ''01X''
      else if bank = 9 then xenium_mask_flash_address address ''0XX''
      else if bank = 10 then xenium_mask_flash_address address ''111''
      else Assert_failed)"

subsection \<open>Register writes and reads\<close>

text \<open>
  \<^verbatim>\<open>xenium_io_write(opaque, addr, val, size)\<close>: \<open>s\<close> is the state behind \<^verbatim>\<open>opaque\<close>; the
  parameter \<^verbatim>\<open>size\<close> is not read by the C code. A conversion to \<^verbatim>\<open>bool\<close> is a test
  against zero, a conversion to a narrower unsigned type keeps the low bits.
\<close>

definition xenium_io_write :: "XeniumState \<Rightarrow> u64 \<Rightarrow> u64 \<Rightarrow> XeniumState outcome" where
  "xenium_io_write s addr val =
     (if addr = 0 then
        (if drop_bit 3 val = 0 then Returned (s\<lparr>led := ucast val\<rparr>) else Assert_failed)
      else if addr = 1 then
        (if val AND push_bit 7 1 = 0 then
           Returned (s\<lparr>sck := (val AND push_bit 6 1 \<noteq> 0),
                        cs := (val AND push_bit 5 1 \<noteq> 0),
                        mosi := (val AND push_bit 4 1 \<noteq> 0),
                        bank_control := ucast (val AND 0xF)\<rparr>)
         else Assert_failed)
      else Assert_failed)"

text \<open>
  \<^verbatim>\<open>xenium_io_read(opaque, addr, size)\<close>: the local \<^verbatim>\<open>val\<close> is a \<^verbatim>\<open>uint32_t\<close>, widened to
  \<^verbatim>\<open>uint64_t\<close> by the \<^verbatim>\<open>return\<close>. The operands of the shifts are 0 or 1 and
  \<^verbatim>\<open>bank_control\<close> is below \<open>2 ^ 16\<close>, so the \<^verbatim>\<open>int\<close> arithmetic of C neither overflows
  nor goes negative. The state is not changed.
\<close>

definition xenium_io_read :: "XeniumState \<Rightarrow> u64 \<Rightarrow> u64 outcome" where
  "xenium_io_read s addr =
     (if addr = 0 then Returned (ucast (0x55 :: u32))
      else if addr = 1 then
        Returned (ucast ((push_bit 7 (of_bool (recovery s)) OR
                          push_bit 5 (of_bool (miso_1 s)) OR
                          push_bit 4 (of_bool (miso_4 s)) OR
                          ucast (bank_control s)) :: u32))
      else Assert_failed)"

subsection \<open>Device attach\<close>

text \<open>
  \<^verbatim>\<open>xenium_realize\<close> assigns three members; the registration of the I/O region with
  the host bus touches no member of the record above.
\<close>

definition xenium_realize :: "XeniumState \<Rightarrow> XeniumState" where
  "xenium_realize s = s\<lparr>bank_control := 1, recovery := True, led := 1\<rparr>"

subsection \<open>Sequences of bus accesses\<close>

text \<open>
  The host serialises register accesses. A sequence of them is run from left to
  right; a failed assertion ends the run, as the abort of the process would.
\<close>

datatype bus_access = Bus_read u64 | Bus_write u64 u64

fun bus_step :: "XeniumState \<Rightarrow> bus_access \<Rightarrow> XeniumState outcome" where
  "bus_step s (Bus_read addr) =
     (case xenium_io_read s addr of
        Returned v \<Rightarrow> Returned s
      | Assert_failed \<Rightarrow> Assert_failed
      | No_return_value \<Rightarrow> No_return_value)"
| "bus_step s (Bus_write addr val) = xenium_io_write s addr val"

fun bus_run :: "XeniumState \<Rightarrow> bus_access list \<Rightarrow> XeniumState outcome" where
  "bus_run s [] = Returned s"
| "bus_run s (a # as) =
     (case bus_step s a of
        Returned s' \<Rightarrow> bus_run s' as
      | Assert_failed \<Rightarrow> Assert_failed
      | No_return_value \<Rightarrow> No_return_value)"

subsection \<open>A concrete device\<close>

text \<open>
  The record with every member zero. Attached with \<open>xenium_realize\<close>, it is the
  concrete device of the worked examples further down.
\<close>

definition blank_state :: XeniumState where
  "blank_state = \<lparr>sck = False, cs = False, mosi = False, miso_1 = False, miso_4 = False,
          led = 0, bank_control = 0, recovery = False\<rparr>"

section \<open>Auxiliary facts about bytes and words\<close>

lemma bit_ucast_byte: "bit (ucast (v :: u8) :: u64) n \<longleftrightarrow> bit v n"
  by (auto simp add: bit_simps dest: bit_imp_le_length)

lemma ucast_byte_back: "(ucast (ucast (v :: u8) :: u64) :: u8) = v"
  by (rule bit_word_eqI) (auto simp add: bit_simps)

lemma byte_high_bits:
  "(\<forall>n. \<not> bit (v :: u8) (n + 3)) \<longleftrightarrow>
    (\<not> bit v 3 \<and> \<not> bit v 4 \<and> \<not> bit v 5 \<and> \<not> bit v 6 \<and> \<not> bit v 7)"
proof
  assume h: "\<forall>n. \<not> bit v (n + 3)"
  from h [rule_format, of 0] h [rule_format, of 1] h [rule_format, of 2]
    h [rule_format, of 3] h [rule_format, of 4]
  show "\<not> bit v 3 \<and> \<not> bit v 4 \<and> \<not> bit v 5 \<and> \<not> bit v 6 \<and> \<not> bit v 7"
    by simp
next
  assume h: "\<not> bit v 3 \<and> \<not> bit v 4 \<and> \<not> bit v 5 \<and> \<not> bit v 6 \<and> \<not> bit v 7"
  show "\<forall>n. \<not> bit v (n + 3)"
  proof
    fix n
    show "\<not> bit v (n + 3)"
    proof
      assume b: "bit v (n + 3)"
      then have "n + 3 < 8" by (auto dest: bit_imp_le_length)
      then have "n = 0 \<or> n = 1 \<or> n = 2 \<or> n = 3 \<or> n = 4" by arith
      with b h show False by auto
    qed
  qed
qed

lemma drop3_byte: "drop_bit 3 (ucast (v :: u8) :: u64) = 0 \<longleftrightarrow>
    (\<not> bit v 3 \<and> \<not> bit v 4 \<and> \<not> bit v 5 \<and> \<not> bit v 6 \<and> \<not> bit v 7)"
proof -
  have "drop_bit 3 (ucast v :: u64) = 0 \<longleftrightarrow> (\<forall>n. \<not> bit (ucast v :: u64) (n + 3))"
  proof
    assume z: "drop_bit 3 (ucast v :: u64) = 0"
    show "\<forall>n. \<not> bit (ucast v :: u64) (n + 3)"
    proof
      fix n
      have "bit (drop_bit 3 (ucast v :: u64)) n = bit (ucast v :: u64) (n + 3)"
        by (simp add: bit_drop_bit_eq add.commute)
      with z show "\<not> bit (ucast v :: u64) (n + 3)" by simp
    qed
  next
    assume "\<forall>n. \<not> bit (ucast v :: u64) (n + 3)"
    then show "drop_bit 3 (ucast v :: u64) = 0"
      by (intro bit_eqI) (simp add: bit_drop_bit_eq add.commute)
  qed
  also have "\<dots> \<longleftrightarrow> (\<forall>n. \<not> bit v (n + 3))"
    by (simp add: bit_ucast_byte)
  finally show ?thesis by (simp add: byte_high_bits)
qed

lemma nibble_byte: "(ucast ((ucast (v :: u8) :: u64) AND 0xF) :: u16) = ucast (v AND 0xF)"
  by (rule bit_word_eqI) (auto simp add: bit_simps dest: bit_imp_le_length)

lemma and_bit_byte: "(ucast (v :: u8) :: u64) AND push_bit n 1 = 0 \<longleftrightarrow> \<not> bit v n"
  by (simp add: and_exp_eq_0_iff_not_bit bit_ucast_byte)

lemma byte_tests:
  "(ucast (v :: u8) :: u64) AND 128 = 0 \<longleftrightarrow> \<not> bit v 7"
  "(ucast (v :: u8) :: u64) AND 64 = 0 \<longleftrightarrow> \<not> bit v 6"
  "(ucast (v :: u8) :: u64) AND 32 = 0 \<longleftrightarrow> \<not> bit v 5"
  "(ucast (v :: u8) :: u64) AND 16 = 0 \<longleftrightarrow> \<not> bit v 4"
  using and_bit_byte [of v 7] and_bit_byte [of v 6] and_bit_byte [of v 5] and_bit_byte [of v 4]
  by simp_all

lemma fifteen_mask: "(15 :: 'a::len word) = mask 4"
  by (simp add: mask_eq_exp_minus_1)

lemma nibble_less_16: "(ucast ((val :: u64) AND 0xF) :: u16) < 16"
proof -
  have "(ucast (val AND mask 4) :: u16) = ucast val AND mask 4"
    by (rule bit_word_eqI) (auto simp add: bit_simps)
  moreover have "(ucast val :: u16) AND mask 4 < 2 ^ 4"
    by (rule and_mask_less') simp
  ultimately show ?thesis by (simp add: fifteen_mask)
qed

lemma less_16_bits: "(b :: u16) < 16 \<Longrightarrow> bit b n \<Longrightarrow> n < 4"
proof -
  assume "b < 16" and n: "bit b n"
  then have "b < 2 ^ 4" by simp
  then have e: "b AND mask 4 = b" by (rule less_mask_eq)
  from n have "bit (b AND mask 4) n" by (simp only: e)
  then show "n < 4" by (simp add: bit_and_iff bit_mask_iff)
qed

section \<open>The bank code stays below 16\<close>

lemma write_keeps_bank_small:
  "xenium_io_write s addr val = Returned s' \<Longrightarrow> bank_control s < 16 \<Longrightarrow> bank_control s' < 16"
  unfolding xenium_io_write_def
  by (auto simp add: nibble_less_16 split: if_splits)

lemma step_keeps_bank_small:
  "bus_step s a = Returned s' \<Longrightarrow> bank_control s < 16 \<Longrightarrow> bank_control s' < 16"
  by (cases a) (auto simp add: write_keeps_bank_small split: outcome.splits)

lemma run_keeps_bank_small:
  "bus_run s as = Returned s' \<Longrightarrow> bank_control s < 16 \<Longrightarrow> bank_control s' < 16"
proof (induction as arbitrary: s)
  case Nil
  then show ?case by simp
next
  case (Cons a as)
  from Cons.prems(1) obtain t where st: "bus_step s a = Returned t" and r: "bus_run t as = Returned s'"
    by (auto split: outcome.splits)
  from st Cons.prems(2) have "bank_control t < 16" by (rule step_keeps_bank_small)
  with r show ?case by (rule Cons.IH)
qed

lemma realize_bank_small: "bank_control (xenium_realize s) < 16"
  by (simp add: xenium_realize_def)

section \<open>The byte read from register 1\<close>

lemma read1_word:
  "(ucast ((push_bit 7 (of_bool r) OR push_bit 5 (of_bool m1) OR push_bit 4 (of_bool m4) OR
        ucast (b :: u16)) :: u32) :: u64) =
    push_bit 7 (of_bool r) OR push_bit 5 (of_bool m1) OR push_bit 4 (of_bool m4) OR ucast b"
  by (rule bit_word_eqI) (auto simp add: bit_simps dest: bit_imp_le_length)

lemma read1_value:
  "xenium_io_read s 1 = Returned (push_bit 7 (of_bool (recovery s)) OR
        push_bit 5 (of_bool (miso_1 s)) OR push_bit 4 (of_bool (miso_4 s)) OR
        ucast (bank_control s))"
  unfolding xenium_io_read_def by (simp only: read1_word) simp

lemma read1_bit:
  "bit (push_bit 7 (of_bool r) OR push_bit 5 (of_bool m1) OR push_bit 4 (of_bool m4) OR
        (ucast (b :: u16) :: u64)) n \<longleftrightarrow>
     (n = 7 \<and> r) \<or> (n = 5 \<and> m1) \<or> (n = 4 \<and> m4) \<or> bit b n"
  by (auto simp add: bit_simps dest: bit_imp_le_length)

lemma read1_low:
  assumes "(b :: u16) < 16"
  shows "(push_bit 7 (of_bool r) OR push_bit 5 (of_bool m1) OR push_bit 4 (of_bool m4) OR
        (ucast b :: u64)) AND 0xF = ucast b"
  unfolding fifteen_mask
  by (rule bit_word_eqI) (auto simp add: bit_simps dest: bit_imp_le_length less_16_bits [OF assms])

lemma read1_bits:
  assumes "bank_control s < 16"
  shows "\<exists>v. xenium_io_read s 1 = Returned v \<and> v AND 0xF = ucast (bank_control s) \<and>
    \<not> bit v 6 \<and> bit v 7 = recovery s \<and> bit v 5 = miso_1 s \<and> bit v 4 = miso_4 s"
proof -
  have hi: "\<not> bit (bank_control s) 4" "\<not> bit (bank_control s) 5"
    "\<not> bit (bank_control s) 6" "\<not> bit (bank_control s) 7"
    using less_16_bits [OF assms, of 4] less_16_bits [OF assms, of 5]
      less_16_bits [OF assms, of 6] less_16_bits [OF assms, of 7]
    by auto
  show ?thesis
    by (simp add: read1_value read1_bit read1_low [OF assms] hi)
qed

section \<open>The masking loop\<close>

lemma set_bit_u32: "k < 32 \<Longrightarrow> bit ((t :: u32) OR push_bit k 1) n \<longleftrightarrow> bit t n \<or> n = k"
  by (auto simp add: bit_simps)

lemma clear_bit_u32: "k < 32 \<Longrightarrow> bit ((t :: u32) AND NOT (push_bit k 1)) n \<longleftrightarrow> bit t n \<and> n \<noteq> k"
  by (auto simp add: bit_simps dest: bit_imp_le_length)

text \<open>One pass through the loop body, on bit \<open>k\<close>, for a character \<open>c\<close> the switch accepts.\<close>

lemma mask_loop_step:
  assumes "i < 3" and "mask_char msk i = c" and "c \<in> {CHR ''0'', CHR ''1'', CHR ''X''}"
  shows "\<exists>u. xenium_mask_loop i t msk = xenium_mask_loop (i + 1) u msk \<and>
     (\<forall>n. bit u n = (if n = 20 - i then c = CHR ''1'' \<or> c = CHR ''X'' \<and> bit t n
                     else bit t n))"
proof -
  from assms(1) have k: "20 - i < 32" by simp
  from assms(3) consider (one) "c = CHR ''1''" | (zero) "c = CHR ''0''" | (keep) "c = CHR ''X''"
    by auto
  then show ?thesis
  proof cases
    case one
    with assms(1, 2) have "xenium_mask_loop i t msk = xenium_mask_loop (i + 1) (t OR push_bit (20 - i) 1) msk"
      by (subst xenium_mask_loop.simps) (simp add: Let_def del: push_bit_of_1)
    moreover have "\<forall>n. bit (t OR push_bit (20 - i) 1) n = (if n = 20 - i
                     then c = CHR ''1'' \<or> c = CHR ''X'' \<and> bit t n
                     else bit t n)"
      using one by (simp only: set_bit_u32 [OF k]) simp
    ultimately show ?thesis by blast
  next
    case zero
    with assms(1, 2) have "xenium_mask_loop i t msk =
        xenium_mask_loop (i + 1) (t AND NOT (push_bit (20 - i) 1)) msk"
      by (subst xenium_mask_loop.simps) (simp add: Let_def del: push_bit_of_1)
    moreover have "\<forall>n. bit (t AND NOT (push_bit (20 - i) 1)) n = (if n = 20 - i
                     then c = CHR ''1'' \<or> c = CHR ''X'' \<and> bit t n
                     else bit t n)"
      using zero by (simp only: clear_bit_u32 [OF k]) simp
    ultimately show ?thesis by blast
  next
    case keep
    with assms(1, 2) have "xenium_mask_loop i t msk = xenium_mask_loop (i + 1) t msk"
      by (subst xenium_mask_loop.simps) (simp add: Let_def del: push_bit_of_1)
    moreover have "\<forall>n. bit t n = (if n = 20 - i
                     then c = CHR ''1'' \<or> c = CHR ''X'' \<and> bit t n
                     else bit t n)"
      using keep by simp
    ultimately show ?thesis by blast
  qed
qed

lemma mask_loop_exit: "xenium_mask_loop 3 t msk = Some t"
  by (subst xenium_mask_loop.simps) simp


lemma mask_loop_computes:
  assumes "c0 \<in> {CHR ''0'', CHR ''1'', CHR ''X''}" "c1 \<in> {CHR ''0'', CHR ''1'', CHR ''X''}"
    "c2 \<in> {CHR ''0'', CHR ''1'', CHR ''X''}"
  shows "\<exists>t. xenium_mask_loop 0 address [c0, c1, c2] = Some t \<and>
     (\<forall>n. bit t n =
        (if n = 20 then c0 = CHR ''1'' \<or> c0 = CHR ''X'' \<and> bit address 20
         else if n = 19 then c1 = CHR ''1'' \<or> c1 = CHR ''X'' \<and> bit address 19
         else if n = 18 then c2 = CHR ''1'' \<or> c2 = CHR ''X'' \<and> bit address 18
         else bit address n))"
proof -
  let ?m = "[c0, c1, c2]"
  have m: "mask_char ?m 0 = c0" "mask_char ?m 1 = c1" "mask_char ?m 2 = c2"
    by (simp_all add: mask_char_def)
  have a: "(0::nat) < 3" "(1::nat) < 3" "(2::nat) < 3"
    by simp_all
  have e: "(0::nat) + 1 = 1" "(1::nat) + 1 = 2" "(2::nat) + 1 = 3"
    "20 - (0::nat) = 20" "20 - (1::nat) = 19" "20 - (2::nat) = 18"
    by simp_all
  have "\<exists>u. xenium_mask_loop 0 address ?m = xenium_mask_loop 1 u ?m \<and>
      (\<forall>n. bit u n = (if n = 20 then c0 = CHR ''1'' \<or> c0 = CHR ''X'' \<and> bit address n
                      else bit address n))"
    by (rule mask_loop_step [OF a(1) m(1) assms(1), of address, unfolded e])
  then obtain u0 where
    s0: "xenium_mask_loop 0 address ?m = xenium_mask_loop 1 u0 ?m" and
    b0: "\<And>n. bit u0 n = (if n = 20 then c0 = CHR ''1'' \<or> c0 = CHR ''X'' \<and> bit address n
                          else bit address n)"
    by blast
  have "\<exists>u. xenium_mask_loop 1 u0 ?m = xenium_mask_loop 2 u ?m \<and>
      (\<forall>n. bit u n = (if n = 19 then c1 = CHR ''1'' \<or> c1 = CHR ''X'' \<and> bit u0 n
                      else bit u0 n))"
    by (rule mask_loop_step [OF a(2) m(2) assms(2), of u0, unfolded e])
  then obtain u1 where
    s1: "xenium_mask_loop 1 u0 ?m = xenium_mask_loop 2 u1 ?m" and
    b1: "\<And>n. bit u1 n = (if n = 19 then c1 = CHR ''1'' \<or> c1 = CHR ''X'' \<and> bit u0 n
                          else bit u0 n)"
    by blast
  have "\<exists>u. xenium_mask_loop 2 u1 ?m = xenium_mask_loop 3 u ?m \<and>
      (\<forall>n. bit u n = (if n = 18 then c2 = CHR ''1'' \<or> c2 = CHR ''X'' \<and> bit u1 n
                      else bit u1 n))"
    by (rule mask_loop_step [OF a(3) m(3) assms(3), of u1, unfolded e])
  then obtain u2 where
    s2: "xenium_mask_loop 2 u1 ?m = xenium_mask_loop 3 u2 ?m" and
    b2: "\<And>n. bit u2 n = (if n = 18 then c2 = CHR ''1'' \<or> c2 = CHR ''X'' \<and> bit u1 n
                          else bit u1 n)"
    by blast
  have "xenium_mask_loop 0 address ?m = Some u2"
    by (simp only: s0 s1 s2 mask_loop_exit)
  moreover have "bit u2 n =
        (if n = 20 then c0 = CHR ''1'' \<or> c0 = CHR ''X'' \<and> bit address 20
         else if n = 19 then c1 = CHR ''1'' \<or> c1 = CHR ''X'' \<and> bit address 19
         else if n = 18 then c2 = CHR ''1'' \<or> c2 = CHR ''X'' \<and> bit address 18
         else bit address n)" for n
    by (simp add: b0 b1 b2)
  ultimately show ?thesis by blast
qed

text \<open>
  For a pattern of three accepted characters the loop leaves in \<open>translation\<close> the
  address with bits 20, 19 and 18 rewritten, and the function then ends without
  returning it.
\<close>

lemma mask_flash_address_valid_pattern:
  assumes "c0 \<in> {CHR ''0'', CHR ''1'', CHR ''X''}" "c1 \<in> {CHR ''0'', CHR ''1'', CHR ''X''}"
    "c2 \<in> {CHR ''0'', CHR ''1'', CHR ''X''}"
  shows "xenium_mask_flash_address address [c0, c1, c2] = No_return_value"
  using mask_loop_computes [OF assms, of address]
  by (auto simp add: xenium_mask_flash_address_def)

lemma mask_flash_address_never_returns:
  "xenium_mask_flash_address address msk \<noteq> Returned t"
  unfolding xenium_mask_flash_address_def by (simp split: option.splits)

lemma translate_never_returns:
  "xenium_translate_flash_address address bank \<noteq> Returned t"
  unfolding xenium_translate_flash_address_def
  by (simp add: mask_flash_address_never_returns)

lemma translate_above_10:
  "10 < bank \<Longrightarrow> xenium_translate_flash_address address bank = Assert_failed"
  unfolding xenium_translate_flash_address_def by auto

section \<open>Register 1 written with a byte\<close>

lemma write1_byte: "xenium_io_write s 1 (ucast (v :: u8)) =
     (if bit v 7 then Assert_failed
      else Returned (s\<lparr>sck := bit v 6, cs := bit v 5, mosi := bit v 4,
                       bank_control := ucast (v AND 0xF)\<rparr>))"
  unfolding xenium_io_write_def by (simp add: byte_tests nibble_byte)

lemma nibble_back: "(ucast (ucast ((v :: u8) AND 0xF) :: u16) :: u8) = v AND 0xF"
  by (rule bit_word_eqI) (auto simp add: bit_simps)

section \<open>The claims\<close>

subsection \<open>C1: the masked address is returned\<close>

text \<open>
  Claim C1: for every address and every pattern over \<open>0\<close>, \<open>1\<close>, \<open>X\<close>, the masking function
  returns the address with bit \<open>20 - i\<close> cleared, set or kept as \<open>pattern[i]\<close> says.
  The loop does compute that value (\<open>mask_loop_computes\<close>), but the body has no
  \<^verbatim>\<open>return\<close>: at address \<open>0\<close> and pattern \<open>111\<close> the local \<open>translation\<close> ends as
  \<open>0x1C0000\<close> and the call delivers no value.
\<close>

theorem mask_flash_address_drops_translation:
  "xenium_mask_loop 0 0 ''111'' = Some 0x1C0000 \<and>
   xenium_mask_flash_address 0 ''111'' = No_return_value"
  by (simp add: xenium_mask_flash_address_def xenium_mask_loop.simps mask_char_def)

subsection \<open>C2: translation rewrites bits 20 to 18 by the bank's pattern\<close>

text \<open>
  Claim C2: for bank codes 0 to 10 the translation is the input with bits 20 to 18
  rewritten by the bank's pattern, and bank 0 is the identity. Every one of these
  cases returns what the masking call delivers, which is no value: at address
  \<open>0x123456\<close>, bank 0 should give \<open>0x123456\<close> and bank 1 should give \<open>0x1A3456\<close>, and
  neither call delivers an address.
\<close>

theorem translate_flash_address_no_value:
  "xenium_translate_flash_address 0x123456 0 = No_return_value \<and>
   xenium_translate_flash_address 0x123456 1 = No_return_value"
  by (simp add: xenium_translate_flash_address_def xenium_mask_flash_address_def
      xenium_mask_loop.simps mask_char_def)

subsection \<open>C3: bank codes 11 to 15 are a fatal error\<close>

text \<open>
  Claim C3: for every address, translation with a bank code from 11 to 15 ends in
  the failed assertion of the \<^verbatim>\<open>default\<close> case and never delivers an address.
\<close>

theorem translate_undefined_bank_fails:
  assumes "11 \<le> bank" and "bank \<le> 15"
  shows "xenium_translate_flash_address address bank = Assert_failed \<and>
     (\<forall>a. xenium_translate_flash_address address bank \<noteq> Returned a)"
proof -
  from assms(1) have "10 < bank"
    by (simp add: word_less_def word_le_def)
  then show ?thesis
    by (simp add: translate_above_10)
qed

theorem translate_undefined_bank_fails_witness:
  "(11 :: u8) \<le> 11 \<and> (11 :: u8) \<le> 15 \<and>
     xenium_translate_flash_address 0x0C0000 11 = Assert_failed \<and>
     (\<forall>a. xenium_translate_flash_address 0x0C0000 11 \<noteq> Returned a)"
  using translate_undefined_bank_fails [of 11 "0x0C0000"] by simp

subsection \<open>C4: writes to register 0\<close>

text \<open>
  Claim C4: a write of the byte \<open>v\<close> to register 0 succeeds and stores \<open>v\<close> in \<open>led\<close>
  exactly when bits 3 to 7 of \<open>v\<close> are all zero; otherwise the assertion fails and
  nothing is stored.
\<close>

theorem write_register0_led:
  "xenium_io_write s 0 (ucast (v :: u8)) =
     (if \<not> bit v 3 \<and> \<not> bit v 4 \<and> \<not> bit v 5 \<and> \<not> bit v 6 \<and> \<not> bit v 7
      then Returned (s\<lparr>led := v\<rparr>) else Assert_failed)"
  unfolding xenium_io_write_def
  by (simp only: drop3_byte ucast_byte_back if_True refl)

subsection \<open>C5: writes to register 1\<close>

text \<open>
  Claim C5: a write of the byte \<open>v\<close> to register 1 fails exactly when bit 7 of \<open>v\<close> is
  set; otherwise \<open>sck\<close>, \<open>cs\<close> and \<open>mosi\<close> become bits 6, 5 and 4 and \<open>bank_control\<close>
  becomes the low nibble, whatever its value. A nibble from 11 to 15 is stored by the
  write and refused only by a later translation with the stored code.
\<close>

theorem write_register1_fields:
  "xenium_io_write s 1 (ucast (v :: u8)) =
     (if bit v 7 then Assert_failed
      else Returned (s\<lparr>sck := bit v 6, cs := bit v 5, mosi := bit v 4,
                       bank_control := ucast (v AND 0xF)\<rparr>)) \<and>
   (\<not> bit v 7 \<and> 11 \<le> v AND 0xF \<longrightarrow>
      (\<exists>s'. xenium_io_write s 1 (ucast v) = Returned s' \<and>
         bank_control s' = ucast (v AND 0xF) \<and>
         xenium_translate_flash_address address (ucast (bank_control s')) = Assert_failed))"
proof -
  have "xenium_translate_flash_address address (v AND 0xF) = Assert_failed"
    if "11 \<le> v AND 0xF"
  proof -
    from that have "10 < v AND 0xF"
      by (simp add: word_less_def word_le_def)
    then show ?thesis
      by (rule translate_above_10)
  qed
  then show ?thesis
    by (simp add: write1_byte nibble_back)
qed

theorem write_register1_fields_witness:
  "\<not> bit (0x6B :: u8) 7 \<and> (11 :: u8) \<le> 0x6B AND 0xF \<and>
   xenium_io_write (xenium_realize blank_state) 1 (ucast (0x6B :: u8)) =
     Returned (xenium_realize blank_state\<lparr>sck := True, cs := True, mosi := False,
                 bank_control := 11\<rparr>) \<and>
   xenium_translate_flash_address 0 (ucast (11 :: u16)) = Assert_failed"
  using write_register1_fields [of "xenium_realize blank_state" "0x6B" 0]
  by auto

subsection \<open>C6: reads of register 0\<close>

text \<open>
  Claim C6: a read of register 0 returns \<open>0x55\<close> in every device state, whatever was
  written before and whatever \<open>led\<close> holds.
\<close>

theorem read_register0_constant:
  "xenium_io_read s 0 = Returned 0x55 \<and> xenium_io_read (s\<lparr>led := l\<rparr>) 0 = Returned 0x55"
  by (simp add: xenium_io_read_def)

subsection \<open>C7: reads of register 1\<close>

text \<open>
  Claim C7: in every device state a read of register 1 returns
  \<open>(recovery << 7) | (miso_1 << 5) | (miso_4 << 4) | bank_control\<close>; with \<open>recovery\<close> set
  and both \<open>miso\<close> lines clear, a write that selects bank 5 is followed by a read of
  \<open>0x85\<close>.
\<close>

theorem read_register1_byte:
  "xenium_io_read s 1 =
     Returned (push_bit 7 (of_bool (recovery s)) OR push_bit 5 (of_bool (miso_1 s)) OR
               push_bit 4 (of_bool (miso_4 s)) OR ucast (bank_control s)) \<and>
   (recovery s \<and> \<not> miso_1 s \<and> \<not> miso_4 s \<and> \<not> bit v 7 \<and> v AND 0xF = 5 \<longrightarrow>
      (\<exists>s'. xenium_io_write s 1 (ucast (v :: u8)) = Returned s' \<and> bank_control s' = 5 \<and>
         xenium_io_read s' 1 = Returned 0x85))"
  by (simp add: read1_value write1_byte)

theorem read_register1_byte_witness:
  "recovery (xenium_realize blank_state) \<and> \<not> miso_1 (xenium_realize blank_state) \<and>
   \<not> miso_4 (xenium_realize blank_state) \<and> \<not> bit (5 :: u8) 7 \<and> (5 :: u8) AND 0xF = 5 \<and>
   (\<exists>s'. xenium_io_write (xenium_realize blank_state) 1 (ucast (5 :: u8)) = Returned s' \<and>
      bank_control s' = 5 \<and> xenium_io_read s' 1 = Returned 0x85)"
  using read_register1_byte [of "xenium_realize blank_state" 5]
  by (simp add: xenium_realize_def blank_state_def)

subsection \<open>C8: the defaults at attach\<close>

text \<open>
  Claim C8: \<open>xenium_realize\<close> sets \<open>bank_control\<close> to 1, \<open>recovery\<close> to true and \<open>led\<close> to
  1, and assigns no other member.
\<close>

theorem realize_defaults:
  "bank_control (xenium_realize s) = 1 \<and> recovery (xenium_realize s) = True \<and>
   led (xenium_realize s) = 1 \<and>
   sck (xenium_realize s) = sck s \<and> cs (xenium_realize s) = cs s \<and>
   mosi (xenium_realize s) = mosi s \<and> miso_1 (xenium_realize s) = miso_1 s \<and>
   miso_4 (xenium_realize s) = miso_4 s"
  by (simp add: xenium_realize_def)

subsection \<open>C9: what a write leaves alone\<close>

text \<open>
  Claim C9: an accepted write to register 1 leaves \<open>led\<close>, \<open>recovery\<close>, \<open>miso_1\<close> and
  \<open>miso_4\<close> as they were, and an accepted write to register 0 leaves every member
  but \<open>led\<close> as it was. The written value is any 64-bit value the handler accepts.
\<close>

theorem write_frame:
  "(xenium_io_write s 1 val = Returned s' \<longrightarrow>
      led s' = led s \<and> recovery s' = recovery s \<and> miso_1 s' = miso_1 s \<and>
      miso_4 s' = miso_4 s) \<and>
   (xenium_io_write s 0 val = Returned s' \<longrightarrow>
      sck s' = sck s \<and> cs s' = cs s \<and> mosi s' = mosi s \<and> miso_1 s' = miso_1 s \<and>
      miso_4 s' = miso_4 s \<and> bank_control s' = bank_control s \<and> recovery s' = recovery s)"
  unfolding xenium_io_write_def by (auto split: if_splits)

theorem write_frame_witness:
  "xenium_io_write (xenium_realize blank_state) 1 0x6B =
     Returned (xenium_realize blank_state\<lparr>sck := True, cs := True, mosi := False,
                 bank_control := 11\<rparr>) \<and>
   led (xenium_realize blank_state\<lparr>sck := True, cs := True, mosi := False,
                 bank_control := 11\<rparr>) = led (xenium_realize blank_state) \<and>
   xenium_io_write (xenium_realize blank_state) 0 6 =
     Returned (xenium_realize blank_state\<lparr>led := 6\<rparr>) \<and>
   bank_control (xenium_realize blank_state\<lparr>led := 6\<rparr>) =
     bank_control (xenium_realize blank_state)"
  using write_frame [of "xenium_realize blank_state" "0x6B"
      "xenium_realize blank_state\<lparr>sck := True, cs := True, mosi := False, bank_control := 11\<rparr>"]
    write_frame [of "xenium_realize blank_state" 6 "xenium_realize blank_state\<lparr>led := 6\<rparr>"]
  by (simp add: xenium_io_write_def)

subsection \<open>C10: the bank code fits in four bits\<close>

text \<open>
  Claim C10: from the state \<open>xenium_realize\<close> leaves, after any sequence of register
  reads and accepted writes, \<open>bank_control\<close> is below 16; a read of register 1 then
  carries it in bits 3 to 0, has bit 6 clear, and has in bits 7, 5 and 4 the three
  flags alone.
\<close>

theorem bank_control_below_16:
  assumes "bus_run (xenium_realize s0) accesses = Returned s"
  shows "bank_control s < 16 \<and>
    (\<exists>v. xenium_io_read s 1 = Returned v \<and> v AND 0xF = ucast (bank_control s) \<and>
       \<not> bit v 6 \<and> bit v 7 = recovery s \<and> bit v 5 = miso_1 s \<and> bit v 4 = miso_4 s)"
proof -
  from assms realize_bank_small have b: "bank_control s < 16"
    by (rule run_keeps_bank_small)
  from read1_bits [OF b] b show ?thesis
    by blast
qed

theorem bank_control_below_16_witness:
  "bus_run (xenium_realize blank_state)
      [Bus_write 1 0x4F, Bus_read 1, Bus_write 0 7, Bus_read 0] =
     Returned (xenium_realize blank_state\<lparr>sck := True, cs := False, mosi := False,
                 bank_control := 15, led := 7\<rparr>) \<and>
   bank_control (xenium_realize blank_state\<lparr>sck := True, cs := False, mosi := False,
                 bank_control := 15, led := 7\<rparr>) < 16 \<and>
   (\<exists>v. xenium_io_read (xenium_realize blank_state\<lparr>sck := True, cs := False, mosi := False,
                 bank_control := 15, led := 7\<rparr>) 1 = Returned v \<and>
      v AND 0xF = 15 \<and> \<not> bit v 6 \<and> bit v 7 \<and> \<not> bit v 5 \<and> \<not> bit v 4)"
proof -
  have run: "bus_run (xenium_realize blank_state)
      [Bus_write 1 0x4F, Bus_read 1, Bus_write 0 7, Bus_read 0] =
     Returned (xenium_realize blank_state\<lparr>sck := True, cs := False, mosi := False,
                 bank_control := 15, led := 7\<rparr>)"
    by (simp add: xenium_io_write_def xenium_io_read_def xenium_realize_def blank_state_def)
  from bank_control_below_16 [OF run] run show ?thesis
    by (simp add: xenium_realize_def blank_state_def)
qed

end
